theory Spec2Isabelle
  imports Main "HOL-Library.Sublist"
begin

section \<open>Windows event log analyzer (loganalyzer.py)\<close>

text \<open>
  The analyzer reads XML event records, turns each one into an event dictionary
  (\<open>parse_event\<close>) and runs a fixed set of rules over the events in order
  (\<open>analyze_events\<close>), updating two module-level variables: the per-account
  counter \<open>failed_logins\<close> and the list \<open>alerts\<close>.
\<close>

subsection \<open>Configuration\<close>

definition FAILED_LOGIN_EVENT_ID :: int where
  "FAILED_LOGIN_EVENT_ID = 4625"

definition ACCOUNT_CREATED_EVENT_ID :: int where
  "ACCOUNT_CREATED_EVENT_ID = 4720"

definition PRIV_ESCALATION_EVENT_ID :: int where
  "PRIV_ESCALATION_EVENT_ID = 4672"

definition SERVICE_STOP_EVENT_ID :: int where
  "SERVICE_STOP_EVENT_ID = 7036"

definition FAILED_LOGIN_THRESHOLD :: int where
  "FAILED_LOGIN_THRESHOLD = 5"

subsection \<open>Data structures\<close>

text \<open>
  The dictionary returned by \<open>parse_event\<close>. \<open>Account\<close> and \<open>Message\<close> hold the
  \<open>.text\<close> of an XML element, which Python gives as a string or as \<open>None\<close>; they
  are options, with \<open>None\<close> for Python's \<open>None\<close>.
\<close>

record event =
  EventID :: int
  Time :: string
  Account :: "string option"
  Message :: "string option"

text \<open>
  The dictionary appended to \<open>alerts\<close>, with keys \<open>Time\<close>, \<open>Account\<close>, \<open>Type\<close>
  and \<open>Details\<close> (prefixed here, since the event record already has \<open>Time\<close> and
  \<open>Account\<close>). \<open>Details\<close> is either the formatted count or the event's message.
\<close>

record alert =
  alert_Time :: string
  alert_Account :: "string option"
  alert_Type :: string
  alert_Details :: "string option"

text \<open>
  The two module-level variables: \<open>failed_logins = defaultdict(int)\<close> and
  \<open>alerts = []\<close>. The keys of the counter are the values of \<open>event["Account"]\<close>.
\<close>

record state =
  failed_logins :: "string option \<rightharpoonup> int"
  alerts :: "alert list"

definition initial_state :: state where
  "initial_state = \<lparr>failed_logins = Map.empty, alerts = []\<rparr>"

text \<open>Reading \<open>failed_logins[k]\<close>: a \<open>defaultdict(int)\<close> gives 0 for a key it does not hold.\<close>

definition getitem :: "(string option \<rightharpoonup> int) \<Rightarrow> string option \<Rightarrow> int" where
  "getitem d k = (case d k of None \<Rightarrow> 0 | Some c \<Rightarrow> c)"

subsection \<open>Formatting an integer\<close>

text \<open>The decimal digits that \<open>f"{n}"\<close> prints for an integer.\<close>

definition digit_char :: "nat \<Rightarrow> char" where
  "digit_char d = char_of (48 + d)"

fun digits :: "nat \<Rightarrow> string" where
  "digits n = (if n < 10 then [digit_char n] else digits (n div 10) @ [digit_char (n mod 10)])"

declare digits.simps [simp del]

definition str_int :: "int \<Rightarrow> string" where
  "str_int i = (if i < 0 then CHR ''-'' # digits (nat (- i)) else digits (nat i))"

subsection \<open>The rules of \<open>analyze_events\<close>\<close>

text \<open>
  The body of the loop after the record is parsed: an \<open>if\<close>/\<open>elif\<close> chain on
  \<open>event["EventID"]\<close>, the first match wins, and no \<open>else\<close> branch.
\<close>

definition process :: "state \<Rightarrow> event \<Rightarrow> state" where
  "process s ev =
    (if EventID ev = FAILED_LOGIN_EVENT_ID then
       let d = (failed_logins s)(Account ev \<mapsto> getitem (failed_logins s) (Account ev) + 1);
           s1 = s\<lparr>failed_logins := d\<rparr>
       in if getitem d (Account ev) \<ge> FAILED_LOGIN_THRESHOLD
          then s1\<lparr>alerts := alerts s1 @
                 [\<lparr>alert_Time = Time ev, alert_Account = Account ev,
                   alert_Type = ''Multiple Failed Logins'',
                   alert_Details = Some (str_int (getitem d (Account ev)) @ '' failed attempts'')\<rparr>]\<rparr>
          else s1
     else if EventID ev = ACCOUNT_CREATED_EVENT_ID then
       s\<lparr>alerts := alerts s @
          [\<lparr>alert_Time = Time ev, alert_Account = Account ev,
            alert_Type = ''New User Account Created'', alert_Details = Message ev\<rparr>]\<rparr>
     else if EventID ev = PRIV_ESCALATION_EVENT_ID then
       s\<lparr>alerts := alerts s @
          [\<lparr>alert_Time = Time ev, alert_Account = Account ev,
            alert_Type = ''Privilege Escalation'', alert_Details = Message ev\<rparr>]\<rparr>
     else if EventID ev = SERVICE_STOP_EVENT_ID then
       s\<lparr>alerts := alerts s @
          [\<lparr>alert_Time = Time ev, alert_Account = Account ev,
            alert_Type = ''Service Stopped'', alert_Details = Message ev\<rparr>]\<rparr>
     else s)"

text \<open>
  What one step appended to \<open>alerts\<close>: the part of the list after the step that
  lies behind the list before it.
\<close>

definition new_alerts :: "state \<Rightarrow> event \<Rightarrow> alert list" where
  "new_alerts s ev = drop (length (alerts s)) (alerts (process s ev))"

text \<open>The alerts appended by each event of a stream, event by event.\<close>

fun trace :: "state \<Rightarrow> event list \<Rightarrow> alert list list" where
  "trace s [] = []"
| "trace s (ev # evs) = new_alerts s ev # trace (process s ev) evs"

text \<open>
  How many failed-login events for account \<open>a\<close> a stream of events holds: the
  cumulative number of failed attempts of that account.
\<close>

definition failed_attempts :: "event list \<Rightarrow> string option \<Rightarrow> int" where
  "failed_attempts evs a =
     int (length (filter (\<lambda>e. EventID e = FAILED_LOGIN_EVENT_ID \<and> Account e = a) evs))"

subsection \<open>XML elements and the paths \<open>parse_event\<close> looks up\<close>

text \<open>
  An element of \<open>xml.etree.ElementTree\<close>: its tag (with the namespace in braces),
  its attribute dictionary, its \<open>.text\<close> (\<open>None\<close> when the element holds no
  text) and its children in document order.
\<close>

datatype element =
  Element (tag: string) (attrib: "(string \<times> string) list")
          (etext: "string option") (children: "element list")

text \<open>\<open>elem.iter()\<close>: the element itself, then all its descendants, in document order.\<close>

fun iter :: "element \<Rightarrow> element list" where
  "iter (Element t a x cs) = Element t a x cs # concat (map iter cs)"

text \<open>
  The steps of the path language of \<open>find\<close> that the source uses: \<open>.\<close>, a tag
  (the children with that tag), \<open>//tag\<close> (the descendants with that tag, the context
  element itself excluded) and \<open>[@key='value']\<close>. Each step maps the list of selected
  elements to the next one, in document order.
\<close>

datatype step = Self | Child string | Descendant string | AttrEq string string

fun select :: "step \<Rightarrow> element list \<Rightarrow> element list" where
  "select Self ctx = ctx"
| "select (Child t) ctx = concat (map (\<lambda>e. filter (\<lambda>c. tag c = t) (children e)) ctx)"
| "select (Descendant t) ctx = concat (map (\<lambda>e. filter (\<lambda>c. tag c = t) (tl (iter e))) ctx)"
| "select (AttrEq k v) ctx = filter (\<lambda>e. map_of (attrib e) k = Some v) ctx"

definition findall :: "element \<Rightarrow> step list \<Rightarrow> element list" where
  "findall root path = foldl (\<lambda>ctx st. select st ctx) [root] path"

text \<open>\<open>root.find(path, ns)\<close>: the first match, or \<open>None\<close>.\<close>

definition find_elem :: "element \<Rightarrow> step list \<Rightarrow> element option" where
  "find_elem root path = (case findall root path of [] \<Rightarrow> None | e # _ \<Rightarrow> Some e)"

definition ns :: "string \<Rightarrow> string" where
  "ns name = ''{http://schemas.microsoft.com/win/2004/08/events/event}'' @ name"

text \<open>\<^verbatim>\<open>"ns:System/ns:EventID"\<close>\<close>

definition path_EventID :: "step list" where
  "path_EventID = [Child (ns ''System''), Child (ns ''EventID'')]"

text \<open>\<^verbatim>\<open>"ns:System/ns:TimeCreated"\<close>\<close>

definition path_TimeCreated :: "step list" where
  "path_TimeCreated = [Child (ns ''System''), Child (ns ''TimeCreated'')]"

text \<open>\<^verbatim>\<open>".//ns:Data[@Name='TargetUserName']"\<close>\<close>

definition path_TargetUserName :: "step list" where
  "path_TargetUserName = [Self, Descendant (ns ''Data''), AttrEq ''Name'' ''TargetUserName'']"

text \<open>\<^verbatim>\<open>".//ns:RenderingInfo/ns:Message"\<close>\<close>

definition path_Message :: "step list" where
  "path_Message = [Self, Descendant (ns ''RenderingInfo''), Child (ns ''Message'')]"

subsection \<open>\<open>parse_event\<close>\<close>

text \<open>
  The exceptions the function can leave with. \<open>ET_ParseError\<close> is the \<open>ParseError\<close> of
  \<open>xml.etree.ElementTree\<close>, raised by \<open>fromstring\<close> on text that is not
  well-formed XML; the others are Python's built-in ones.
\<close>

datatype py_error = ET_ParseError | AttributeError | TypeError | ValueError | KeyError

text \<open>
  \<open>int(x)\<close> for the \<open>.text\<close> of an element: \<open>TypeError\<close> on \<open>None\<close>,
  \<open>ValueError\<close> on a string that is not an integer literal. Which strings are
  integer literals is Python's matter; \<open>int_str\<close> stands for it.
\<close>

definition py_int :: "(string \<Rightarrow> int option) \<Rightarrow> string option \<Rightarrow> py_error + int" where
  "py_int int_str x =
     (case x of
        None \<Rightarrow> Inl TypeError
      | Some t \<Rightarrow> (case int_str t of None \<Rightarrow> Inl ValueError | Some n \<Rightarrow> Inr n))"

text \<open>
  \<open>fromstring\<close> stands for \<open>ET.fromstring\<close>, the XML parser of the standard
  library: the root element, or the exception it raises. An attribute read on the
  \<open>None\<close> that \<open>find\<close> returns raises \<open>AttributeError\<close>; a missing key of
  \<open>attrib\<close> raises \<open>KeyError\<close>.
\<close>

definition parse_event ::
  "(string \<Rightarrow> py_error + element) \<Rightarrow> (string \<Rightarrow> int option) \<Rightarrow> string \<Rightarrow> py_error + event" where
  "parse_event fromstring int_str record_xml =
     (case fromstring record_xml of
        Inl e \<Rightarrow> Inl e
      | Inr root \<Rightarrow>
     (case find_elem root path_EventID of
        None \<Rightarrow> Inl AttributeError
      | Some id_elem \<Rightarrow>
     (case py_int int_str (etext id_elem) of
        Inl e \<Rightarrow> Inl e
      | Inr event_id \<Rightarrow>
     (case find_elem root path_TimeCreated of
        None \<Rightarrow> Inl AttributeError
      | Some time_elem \<Rightarrow>
     (case map_of (attrib time_elem) ''SystemTime'' of
        None \<Rightarrow> Inl KeyError
      | Some time_created \<Rightarrow>
          let account_name_elem = find_elem root path_TargetUserName;
              account_name = (case account_name_elem of
                                Some el \<Rightarrow> etext el | None \<Rightarrow> Some ''N/A'');
              message_elem = find_elem root path_Message;
              message = (case message_elem of Some el \<Rightarrow> etext el | None \<Rightarrow> Some '''')
          in Inr \<lparr>EventID = event_id, Time = time_created,
                  Account = account_name, Message = message\<rparr>)))))"

subsection \<open>\<open>analyze_events\<close>\<close>

text \<open>
  The loop over the records of the log, given as the list of their \<open>record.xml()\<close>
  strings. An exception of \<open>parse_event\<close> is not caught: it ends the loop, and the
  module-level variables stay as the records before it left them.
\<close>

fun analyze_events ::
  "(string \<Rightarrow> py_error + element) \<Rightarrow> (string \<Rightarrow> int option) \<Rightarrow> state \<Rightarrow> string list
     \<Rightarrow> state \<times> py_error option" where
  "analyze_events fromstring int_str s [] = (s, None)"
| "analyze_events fromstring int_str s (record_xml # records) =
     (case parse_event fromstring int_str record_xml of
        Inl e \<Rightarrow> (s, Some e)
      | Inr ev \<Rightarrow> analyze_events fromstring int_str (process s ev) records)"

subsection \<open>\<open>save_alerts_csv\<close>\<close>

text \<open>
  \<open>pd.DataFrame(alerts)\<close> for a list of dictionaries that all have the keys
  \<open>Time\<close>, \<open>Account\<close>, \<open>Type\<close>, \<open>Details\<close> in this order: the columns are
  the keys, each row holds the values of one dictionary.
\<close>

record dataframe =
  columns :: "string list"
  rows :: "string option list list"

definition alert_keys :: "string list" where
  "alert_keys = [''Time'', ''Account'', ''Type'', ''Details'']"

definition alert_values :: "alert \<Rightarrow> string option list" where
  "alert_values a = [Some (alert_Time a), alert_Account a, Some (alert_Type a), alert_Details a]"

definition DataFrame :: "alert list \<Rightarrow> dataframe" where
  "DataFrame al =
     (if al = [] then \<lparr>columns = [], rows = []\<rparr>
      else \<lparr>columns = alert_keys, rows = map alert_values al\<rparr>)"

text \<open>
  \<open>df.to_csv(filename, index=False)\<close>, as the table it writes: the header row
  with the column names, then one row for each row of the frame, a missing value
  (\<open>None\<close>) written as the empty cell. A file is its list of rows, a row its list
  of cells; how the writer quotes a cell and ends a line is left to it.
\<close>

definition csv_cell :: "string option \<Rightarrow> string" where
  "csv_cell v = (case v of None \<Rightarrow> '''' | Some t \<Rightarrow> t)"

definition to_csv :: "dataframe \<Rightarrow> string list list" where
  "to_csv df = columns df # map (map csv_cell) (rows df)"

text \<open>
  The files are a map from file names to contents; the function writes only when
  \<open>alerts\<close> is not empty.
\<close>

definition save_alerts_csv ::
  "string \<Rightarrow> state \<Rightarrow> (string \<rightharpoonup> string list list) \<Rightarrow> (string \<rightharpoonup> string list list)" where
  "save_alerts_csv filename s files =
     (if alerts s \<noteq> [] then files(filename \<mapsto> to_csv (DataFrame (alerts s))) else files)"

subsection \<open>Example events and records\<close>

text \<open>Events and alerts as the analyzer meets them, used to exercise the theorems below.\<close>

definition ex_failed_bob :: event where
  "ex_failed_bob =
     \<lparr>EventID = 4625, Time = ''2024-05-01 10:00:00'', Account = Some ''bob'', Message = Some ''''\<rparr>"

definition ex_created_alice :: event where
  "ex_created_alice =
     \<lparr>EventID = 4720, Time = ''2024-05-01 10:05:00'', Account = Some ''alice'',
      Message = Some ''A user account was created.''\<rparr>"

definition ex_privileged :: event where
  "ex_privileged =
     \<lparr>EventID = 4672, Time = ''2024-05-01 10:06:00'', Account = Some ''N/A'',
      Message = Some ''Special privileges assigned to new logon.''\<rparr>"

definition ex_service :: event where
  "ex_service =
     \<lparr>EventID = 7036, Time = ''2024-05-01 10:07:00'', Account = Some ''N/A'', Message = None\<rparr>"

definition ex_logon :: event where
  "ex_logon =
     \<lparr>EventID = 4624, Time = ''2024-05-01 10:08:00'', Account = Some ''bob'', Message = None\<rparr>"

definition ex_alert :: alert where
  "ex_alert =
     \<lparr>alert_Time = ''2024-05-01 10:07:00'', alert_Account = Some ''N/A'',
      alert_Type = ''Service Stopped'', alert_Details = None\<rparr>"

text \<open>
  Record trees: a \<open>System\<close> element with an \<open>EventID\<close> of the given text and a
  \<open>TimeCreated\<close>; a record with nothing else; records whose \<open>EventID\<close> is
  missing, empty or not a number; and a record whose \<open>TargetUserName\<close> and
  \<open>Message\<close> elements are there but empty.
\<close>

definition ex_system :: "string option \<Rightarrow> element" where
  "ex_system id_text =
     Element (ns ''System'') [] None
       [Element (ns ''EventID'') [] id_text [],
        Element (ns ''TimeCreated'') [(''SystemTime'', ''2024-05-01 10:00:00'')] None []]"

definition ex_minimal :: element where
  "ex_minimal = Element (ns ''Event'') [] None [ex_system (Some ''4625'')]"

definition ex_no_id :: element where
  "ex_no_id =
     Element (ns ''Event'') [] None
       [Element (ns ''System'') [] None
          [Element (ns ''TimeCreated'') [(''SystemTime'', ''2024-05-01 10:00:00'')] None []]]"

definition ex_empty_id :: element where
  "ex_empty_id = Element (ns ''Event'') [] None [ex_system None]"

definition ex_bad_id :: element where
  "ex_bad_id = Element (ns ''Event'') [] None [ex_system (Some ''abc'')]"

definition ex_empty_fields :: element where
  "ex_empty_fields =
     Element (ns ''Event'') [] None
       [ex_system (Some ''4625''),
        Element (ns ''EventData'') [] None
          [Element (ns ''Data'') [(''Name'', ''SubjectUserName'')] (Some ''alice'') [],
           Element (ns ''Data'') [(''Name'', ''TargetUserName'')] None []],
        Element (ns ''RenderingInfo'') [(''Culture'', ''en-US'')] None
          [Element (ns ''Message'') [] None []]]"

text \<open>\<open>int\<close> on the texts of the examples: \<open>"4625"\<close> is a number, \<open>"abc"\<close> is not.\<close>

definition ex_int :: "string \<Rightarrow> int option" where
  "ex_int t = (if t = ''4625'' then Some 4625 else None)"

text \<open>A \<open>fromstring\<close> that reads the text of a record as the given tree.\<close>

definition ex_fromstring :: "element \<Rightarrow> string \<Rightarrow> py_error + element" where
  "ex_fromstring root record_xml = Inr root"

lemmas event_ids =
  FAILED_LOGIN_EVENT_ID_def ACCOUNT_CREATED_EVENT_ID_def
  PRIV_ESCALATION_EVENT_ID_def SERVICE_STOP_EVENT_ID_def

lemmas example_events =
  ex_failed_bob_def ex_created_alice_def ex_privileged_def ex_service_def ex_logon_def

lemmas example_records =
  ex_system_def ex_minimal_def ex_no_id_def ex_empty_id_def ex_bad_id_def
  ex_empty_fields_def ex_int_def ex_fromstring_def

lemmas path_defs =
  find_elem_def findall_def path_EventID_def path_TimeCreated_def
  path_TargetUserName_def path_Message_def ns_def

section \<open>One step of the rules\<close>

text \<open>The counter after a step, and the alerts the step appended, written out.\<close>

lemma failed_logins_process:
  "failed_logins (process s ev) =
     (if EventID ev = FAILED_LOGIN_EVENT_ID
      then (failed_logins s)(Account ev \<mapsto> getitem (failed_logins s) (Account ev) + 1)
      else failed_logins s)"
  by (simp add: process_def Let_def)

lemma new_alerts_eq:
  "new_alerts s ev =
     (if EventID ev = FAILED_LOGIN_EVENT_ID then
        (if FAILED_LOGIN_THRESHOLD \<le> getitem (failed_logins s) (Account ev) + 1
         then [\<lparr>alert_Time = Time ev, alert_Account = Account ev,
                alert_Type = ''Multiple Failed Logins'',
                alert_Details =
                  Some (str_int (getitem (failed_logins s) (Account ev) + 1) @ '' failed attempts'')\<rparr>]
         else [])
      else if EventID ev = ACCOUNT_CREATED_EVENT_ID then
        [\<lparr>alert_Time = Time ev, alert_Account = Account ev,
          alert_Type = ''New User Account Created'', alert_Details = Message ev\<rparr>]
      else if EventID ev = PRIV_ESCALATION_EVENT_ID then
        [\<lparr>alert_Time = Time ev, alert_Account = Account ev,
          alert_Type = ''Privilege Escalation'', alert_Details = Message ev\<rparr>]
      else if EventID ev = SERVICE_STOP_EVENT_ID then
        [\<lparr>alert_Time = Time ev, alert_Account = Account ev,
          alert_Type = ''Service Stopped'', alert_Details = Message ev\<rparr>]
      else [])"
  by (simp add: new_alerts_def process_def Let_def getitem_def)

lemma alerts_process: "alerts (process s ev) = alerts s @ new_alerts s ev"
  by (simp add: new_alerts_def process_def Let_def)

lemma length_new_alerts: "length (new_alerts s ev) \<le> 1"
  by (simp add: new_alerts_eq)

lemma str_int_5: "str_int 5 = ''5''"
  by code_simp

text \<open>
  C2: an event whose EventID is none of the four configured ones changes nothing:
  the state after the step, counter and alert list, is the state before it.
\<close>

theorem process_other_event_id:
  assumes "EventID ev \<noteq> FAILED_LOGIN_EVENT_ID"
    and "EventID ev \<noteq> ACCOUNT_CREATED_EVENT_ID"
    and "EventID ev \<noteq> PRIV_ESCALATION_EVENT_ID"
    and "EventID ev \<noteq> SERVICE_STOP_EVENT_ID"
  shows "process s ev = s"
  using assms by (simp add: process_def)

theorem process_other_event_id_witness:
  "EventID ex_logon \<noteq> FAILED_LOGIN_EVENT_ID
   \<and> EventID ex_logon \<noteq> ACCOUNT_CREATED_EVENT_ID
   \<and> EventID ex_logon \<noteq> PRIV_ESCALATION_EVENT_ID
   \<and> EventID ex_logon \<noteq> SERVICE_STOP_EVENT_ID
   \<and> process (process initial_state ex_created_alice) ex_logon = process initial_state ex_created_alice"
  using process_other_event_id [of ex_logon "process initial_state ex_created_alice"]
  by (simp add: ex_logon_def event_ids)

text \<open>
  C5: an event with the account-created, the privilege-escalation or the service-stop
  id appends exactly one alert, whatever the state before: its type is the one of the
  rule, its time and account are the event's, its details are the event's message.
  Nothing else of the state changes.
\<close>

theorem unconditional_alerts:
  "(EventID ev = ACCOUNT_CREATED_EVENT_ID \<longrightarrow>
      process s ev = s\<lparr>alerts := alerts s @
        [\<lparr>alert_Time = Time ev, alert_Account = Account ev,
          alert_Type = ''New User Account Created'', alert_Details = Message ev\<rparr>]\<rparr>)
   \<and> (EventID ev = PRIV_ESCALATION_EVENT_ID \<longrightarrow>
      process s ev = s\<lparr>alerts := alerts s @
        [\<lparr>alert_Time = Time ev, alert_Account = Account ev,
          alert_Type = ''Privilege Escalation'', alert_Details = Message ev\<rparr>]\<rparr>)
   \<and> (EventID ev = SERVICE_STOP_EVENT_ID \<longrightarrow>
      process s ev = s\<lparr>alerts := alerts s @
        [\<lparr>alert_Time = Time ev, alert_Account = Account ev,
          alert_Type = ''Service Stopped'', alert_Details = Message ev\<rparr>]\<rparr>)"
  by (simp add: process_def event_ids)

theorem unconditional_alerts_witness:
  "EventID ex_created_alice = ACCOUNT_CREATED_EVENT_ID
   \<and> EventID ex_privileged = PRIV_ESCALATION_EVENT_ID
   \<and> EventID ex_service = SERVICE_STOP_EVENT_ID
   \<and> alerts (process initial_state ex_created_alice) =
       [\<lparr>alert_Time = ''2024-05-01 10:05:00'', alert_Account = Some ''alice'',
         alert_Type = ''New User Account Created'',
         alert_Details = Some ''A user account was created.''\<rparr>]
   \<and> alerts (process initial_state ex_privileged) =
       [\<lparr>alert_Time = ''2024-05-01 10:06:00'', alert_Account = Some ''N/A'',
         alert_Type = ''Privilege Escalation'',
         alert_Details = Some ''Special privileges assigned to new logon.''\<rparr>]
   \<and> alerts (process initial_state ex_service) =
       [\<lparr>alert_Time = ''2024-05-01 10:07:00'', alert_Account = Some ''N/A'',
         alert_Type = ''Service Stopped'', alert_Details = None\<rparr>]"
  using unconditional_alerts [of ex_created_alice initial_state]
        unconditional_alerts [of ex_privileged initial_state]
        unconditional_alerts [of ex_service initial_state]
  by (simp add: example_events event_ids initial_state_def)

text \<open>
  C7: one step appends at most one alert, and what it appends and the counter it
  leaves depend on the event and on the counter before the step only: two states with
  the same counter, whatever their alert lists, give the same new alerts and the same
  new counter.
\<close>

theorem process_at_most_one_alert:
  "alerts (process s ev) = alerts s @ new_alerts s ev
   \<and> length (new_alerts s ev) \<le> 1
   \<and> (failed_logins s = failed_logins s' \<longrightarrow>
        new_alerts s ev = new_alerts s' ev
        \<and> failed_logins (process s ev) = failed_logins (process s' ev))"
  by (simp add: alerts_process length_new_alerts new_alerts_eq failed_logins_process)

theorem process_at_most_one_alert_witness:
  "failed_logins initial_state = failed_logins (process initial_state ex_created_alice)
   \<and> alerts initial_state \<noteq> alerts (process initial_state ex_created_alice)
   \<and> new_alerts initial_state ex_failed_bob =
       new_alerts (process initial_state ex_created_alice) ex_failed_bob
   \<and> failed_logins (process initial_state ex_failed_bob) =
       failed_logins (process (process initial_state ex_created_alice) ex_failed_bob)"
  using process_at_most_one_alert
          [of initial_state ex_failed_bob "process initial_state ex_created_alice"]
  by (simp add: failed_logins_process alerts_process new_alerts_eq ex_created_alice_def event_ids)

section \<open>The run over a stream of events\<close>

lemma getitem_process:
  "getitem (failed_logins (process s ev)) a =
     getitem (failed_logins s) a + failed_attempts [ev] a"
  by (simp add: failed_logins_process getitem_def failed_attempts_def)

lemma failed_attempts_Cons:
  "failed_attempts (ev # evs) a = failed_attempts [ev] a + failed_attempts evs a"
  by (simp add: failed_attempts_def)

lemma getitem_run:
  "getitem (failed_logins (foldl process s evs)) a =
     getitem (failed_logins s) a + failed_attempts evs a"
proof (induction evs arbitrary: s)
  case Nil
  show ?case by (simp add: failed_attempts_def)
next
  case (Cons ev evs)
  have "getitem (failed_logins (foldl process s (ev # evs))) a =
          getitem (failed_logins (process s ev)) a + failed_attempts evs a"
    using Cons.IH [of "process s ev"] by simp
  also have "\<dots> = getitem (failed_logins s) a + (failed_attempts [ev] a + failed_attempts evs a)"
    by (simp add: getitem_process)
  finally show ?case
    by (simp add: failed_attempts_Cons [of ev evs])
qed

lemma getitem_initial: "getitem (failed_logins initial_state) a = 0"
  by (simp add: initial_state_def getitem_def)

lemma alerts_run: "alerts (foldl process s evs) = alerts s @ concat (trace s evs)"
proof (induction evs arbitrary: s)
  case Nil
  show ?case by simp
next
  case (Cons ev evs)
  have "alerts (foldl process s (ev # evs)) = alerts (process s ev) @ concat (trace (process s ev) evs)"
    using Cons.IH [of "process s ev"] by simp
  then show ?case by (simp add: alerts_process)
qed

lemma length_trace: "length (trace s evs) = length evs"
  by (induction evs arbitrary: s) simp_all

lemma alerts_analyze_events:
  "prefix (alerts s) (alerts (fst (analyze_events fromstring int_str s records)))"
proof (induction records arbitrary: s)
  case Nil
  show ?case by simp
next
  case (Cons r records)
  show ?case
  proof (cases "parse_event fromstring int_str r")
    case (Inl e)
    then show ?thesis by simp
  next
    case (Inr ev)
    have "prefix (alerts s) (alerts (process s ev))"
      by (simp add: alerts_process)
    also have "prefix (alerts (process s ev))
                 (alerts (fst (analyze_events fromstring int_str (process s ev) records)))"
      by (rule Cons.IH)
    finally show ?thesis using Inr by simp
  qed
qed

text \<open>
  When every record parses, the loop of \<open>analyze_events\<close> is the fold of the rules
  over the parsed events.
\<close>

lemma analyze_events_parsed:
  "map (parse_event fromstring int_str) records = map Inr evs \<Longrightarrow>
   analyze_events fromstring int_str s records = (foldl process s evs, None)"
proof (induction records arbitrary: s evs)
  case Nil
  then show ?case by simp
next
  case (Cons r records)
  then obtain ev evs' where evs: "evs = ev # evs'" by (cases evs) auto
  with Cons.prems have r: "parse_event fromstring int_str r = Inr ev"
    and rest: "map (parse_event fromstring int_str) records = map Inr evs'" by auto
  show ?case using Cons.IH [OF rest, of "process s ev"] r evs by simp
qed

lemma stored_count_process:
  "failed_logins s a = Some c \<Longrightarrow> \<exists>c'. failed_logins (process s ev) a = Some c' \<and> c \<le> c'"
  by (auto simp add: failed_logins_process getitem_def)

lemma stored_count_run:
  "failed_logins s a = Some c \<Longrightarrow> \<exists>c'. failed_logins (foldl process s evs) a = Some c' \<and> c \<le> c'"
proof (induction evs arbitrary: s c)
  case Nil
  then show ?case by simp
next
  case (Cons ev evs)
  from stored_count_process [OF Cons.prems, of ev]
  obtain c1 where c1: "failed_logins (process s ev) a = Some c1" "c \<le> c1" by blast
  from Cons.IH [OF c1(1)]
  obtain c' where "failed_logins (foldl process (process s ev) evs) a = Some c'" "c1 \<le> c'" by blast
  with c1(2) show ?case by auto
qed

text \<open>
  C1: in a run from the empty state, a failed-login event appends no alert while the
  number of failed logins of its account, this one included, is below the threshold,
  and exactly one alert of type Multiple Failed Logins from the threshold on, on every
  such event; the details of the alert are that number followed by
  \<open>failed attempts\<close>. The number is also what the counter holds for the account
  after the step. Other events, for this or other accounts, may lie in between.
\<close>

theorem failed_login_alert_from_threshold:
  assumes "EventID ev = FAILED_LOGIN_EVENT_ID"
  shows "new_alerts (foldl process initial_state evs) ev =
           (if failed_attempts (evs @ [ev]) (Account ev) < FAILED_LOGIN_THRESHOLD then []
            else [\<lparr>alert_Time = Time ev, alert_Account = Account ev,
                   alert_Type = ''Multiple Failed Logins'',
                   alert_Details =
                     Some (str_int (failed_attempts (evs @ [ev]) (Account ev))
                           @ '' failed attempts'')\<rparr>])
         \<and> alerts (process (foldl process initial_state evs) ev) =
             alerts (foldl process initial_state evs) @ new_alerts (foldl process initial_state evs) ev
         \<and> getitem (failed_logins (process (foldl process initial_state evs) ev)) (Account ev) =
             failed_attempts (evs @ [ev]) (Account ev)"
proof -
  let ?s = "foldl process initial_state evs"
  have n: "failed_attempts (evs @ [ev]) (Account ev) = failed_attempts evs (Account ev) + 1"
    using assms by (simp add: failed_attempts_def)
  have c: "getitem (failed_logins ?s) (Account ev) = failed_attempts evs (Account ev)"
    by (simp add: getitem_run getitem_initial)
  have "new_alerts ?s ev =
           (if failed_attempts (evs @ [ev]) (Account ev) < FAILED_LOGIN_THRESHOLD then []
            else [\<lparr>alert_Time = Time ev, alert_Account = Account ev,
                   alert_Type = ''Multiple Failed Logins'',
                   alert_Details =
                     Some (str_int (failed_attempts (evs @ [ev]) (Account ev))
                           @ '' failed attempts'')\<rparr>])"
    using assms by (simp add: new_alerts_eq c n not_less)
  moreover have "alerts (process ?s ev) = alerts ?s @ new_alerts ?s ev"
    by (rule alerts_process)
  moreover have "getitem (failed_logins (process ?s ev)) (Account ev) =
             failed_attempts (evs @ [ev]) (Account ev)"
    using assms by (simp add: getitem_process c n failed_attempts_def)
  ultimately show ?thesis by simp
qed

theorem failed_login_alert_from_threshold_witness:
  "EventID ex_failed_bob = FAILED_LOGIN_EVENT_ID
   \<and> new_alerts (foldl process initial_state [ex_failed_bob, ex_failed_bob, ex_failed_bob]) ex_failed_bob = []
   \<and> new_alerts (foldl process initial_state
         [ex_failed_bob, ex_created_alice, ex_failed_bob, ex_failed_bob, ex_failed_bob]) ex_failed_bob =
       [\<lparr>alert_Time = ''2024-05-01 10:00:00'', alert_Account = Some ''bob'',
         alert_Type = ''Multiple Failed Logins'', alert_Details = Some ''5 failed attempts''\<rparr>]"
  using failed_login_alert_from_threshold
          [of ex_failed_bob "[ex_failed_bob, ex_failed_bob, ex_failed_bob]"]
        failed_login_alert_from_threshold
          [of ex_failed_bob "[ex_failed_bob, ex_created_alice, ex_failed_bob, ex_failed_bob, ex_failed_bob]"]
  by (simp add: ex_failed_bob_def ex_created_alice_def failed_attempts_def event_ids
        FAILED_LOGIN_THRESHOLD_def str_int_5)

text \<open>
  C6: a step only appends to the alert list, so the list before a step is a prefix of
  the list after it; after a stream of events the list is the list before, followed by
  what the first event appended, then what the second appended, and so on in the order
  of the events. The list \<open>analyze_events\<close> leaves, also when a record fails to
  parse, extends the list it started with.
\<close>

theorem alerts_append_only:
  "alerts (process s ev) = alerts s @ new_alerts s ev
   \<and> alerts (foldl process s evs) = alerts s @ concat (trace s evs)
   \<and> length (trace s evs) = length evs
   \<and> prefix (alerts s) (alerts (fst (analyze_events fromstring int_str s records)))"
  by (simp add: alerts_process alerts_run length_trace alerts_analyze_events)

theorem alerts_append_only_witness:
  "alerts (foldl process initial_state
      [ex_failed_bob, ex_failed_bob, ex_failed_bob, ex_failed_bob, ex_failed_bob, ex_created_alice]) =
     [\<lparr>alert_Time = ''2024-05-01 10:00:00'', alert_Account = Some ''bob'',
       alert_Type = ''Multiple Failed Logins'', alert_Details = Some ''5 failed attempts''\<rparr>,
      \<lparr>alert_Time = ''2024-05-01 10:05:00'', alert_Account = Some ''alice'',
       alert_Type = ''New User Account Created'',
       alert_Details = Some ''A user account was created.''\<rparr>]
   \<and> trace initial_state
      [ex_failed_bob, ex_failed_bob, ex_failed_bob, ex_failed_bob, ex_failed_bob, ex_created_alice] =
     [[], [], [], [],
      [\<lparr>alert_Time = ''2024-05-01 10:00:00'', alert_Account = Some ''bob'',
        alert_Type = ''Multiple Failed Logins'', alert_Details = Some ''5 failed attempts''\<rparr>],
      [\<lparr>alert_Time = ''2024-05-01 10:05:00'', alert_Account = Some ''alice'',
        alert_Type = ''New User Account Created'',
        alert_Details = Some ''A user account was created.''\<rparr>]]"
  using alerts_append_only
    [of initial_state ex_failed_bob
        "[ex_failed_bob, ex_failed_bob, ex_failed_bob, ex_failed_bob, ex_failed_bob, ex_created_alice]"]
  by (simp add: new_alerts_eq failed_logins_process getitem_def ex_failed_bob_def
        ex_created_alice_def event_ids FAILED_LOGIN_THRESHOLD_def initial_state_def str_int_5)

text \<open>
  C8: the counter is empty at the start; a step changes it only for a failed-login
  event; and a count the counter holds for an account is still held, and is not
  smaller, after a step and after any stream of events.
\<close>

theorem counter_mutated_only_by_failed_logins:
  "failed_logins initial_state = Map.empty
   \<and> (EventID ev \<noteq> FAILED_LOGIN_EVENT_ID \<longrightarrow> failed_logins (process s ev) = failed_logins s)
   \<and> (failed_logins s a = Some c \<longrightarrow>
        (\<exists>c'. failed_logins (process s ev) a = Some c' \<and> c \<le> c')
        \<and> (\<exists>c'. failed_logins (foldl process s evs) a = Some c' \<and> c \<le> c'))"
  using stored_count_process [of s a c ev] stored_count_run [of s a c evs]
  by (simp add: initial_state_def failed_logins_process)

theorem counter_mutated_only_by_failed_logins_witness:
  "EventID ex_created_alice \<noteq> FAILED_LOGIN_EVENT_ID
   \<and> failed_logins (process (process initial_state ex_failed_bob) ex_created_alice) =
       failed_logins (process initial_state ex_failed_bob)
   \<and> failed_logins (process initial_state ex_failed_bob) (Some ''bob'') = Some 1
   \<and> (\<exists>c'. failed_logins (process (process initial_state ex_failed_bob) ex_failed_bob) (Some ''bob'')
             = Some c' \<and> 1 \<le> c')
   \<and> (\<exists>c'. failed_logins (foldl process (process initial_state ex_failed_bob)
                [ex_created_alice, ex_failed_bob]) (Some ''bob'') = Some c' \<and> 1 \<le> c')"
  using counter_mutated_only_by_failed_logins
          [of ex_created_alice "process initial_state ex_failed_bob" "Some ''bob''" 1
              "[ex_created_alice, ex_failed_bob]"]
        counter_mutated_only_by_failed_logins
          [of ex_failed_bob "process initial_state ex_failed_bob" "Some ''bob''" 1
              "[ex_created_alice, ex_failed_bob]"]
  by (simp add: failed_logins_process ex_created_alice_def ex_failed_bob_def event_ids
        initial_state_def getitem_def)

section \<open>Parsing a record\<close>

lemma parse_event_Inr:
  assumes "fromstring record_xml = Inr root"
    and "find_elem root path_EventID = Some id_elem"
    and "etext id_elem = Some t" and "int_str t = Some n"
    and "find_elem root path_TimeCreated = Some time_elem"
    and "map_of (attrib time_elem) ''SystemTime'' = Some ts"
  shows "parse_event fromstring int_str record_xml =
           Inr \<lparr>EventID = n, Time = ts,
                Account = (case find_elem root path_TargetUserName of
                             Some el \<Rightarrow> etext el | None \<Rightarrow> Some ''N/A''),
                Message = (case find_elem root path_Message of
                             Some el \<Rightarrow> etext el | None \<Rightarrow> Some '''')\<rparr>"
  using assms by (simp add: parse_event_def py_int_def)

lemma parse_event_Inr_fields:
  assumes "parse_event fromstring int_str record_xml = Inr ev"
    and "fromstring record_xml = Inr root"
  shows "Account ev = (case find_elem root path_TargetUserName of
                         Some el \<Rightarrow> etext el | None \<Rightarrow> Some ''N/A'')"
    and "Message ev = (case find_elem root path_Message of
                         Some el \<Rightarrow> etext el | None \<Rightarrow> Some '''')"
  using assms
  by (auto simp add: parse_event_def Let_def split: sum.splits option.splits)

text \<open>
  C3: when a record parses and no \<open>Data\<close> element named \<open>TargetUserName\<close> is
  found, the account of the event is \<open>"N/A"\<close>; when no \<open>Message\<close> under a
  \<open>RenderingInfo\<close> is found, the message is the empty string. Parsing succeeds as
  soon as the \<open>EventID\<close> element, its numeric text, the \<open>TimeCreated\<close> element
  and its \<open>SystemTime\<close> attribute are there: the two optional elements are not
  asked for.
\<close>

theorem parse_event_optional_defaults:
  "(parse_event fromstring int_str record_xml = Inr ev \<and> fromstring record_xml = Inr root
      \<and> find_elem root path_TargetUserName = None \<longrightarrow> Account ev = Some ''N/A'')
   \<and> (parse_event fromstring int_str record_xml = Inr ev \<and> fromstring record_xml = Inr root
      \<and> find_elem root path_Message = None \<longrightarrow> Message ev = Some '''')
   \<and> (fromstring record_xml = Inr root
      \<and> find_elem root path_EventID = Some id_elem \<and> etext id_elem = Some t \<and> int_str t = Some n
      \<and> find_elem root path_TimeCreated = Some time_elem
      \<and> map_of (attrib time_elem) ''SystemTime'' = Some ts
      \<longrightarrow> (\<exists>ev'. parse_event fromstring int_str record_xml = Inr ev'))"
proof (intro conjI impI)
  assume "parse_event fromstring int_str record_xml = Inr ev \<and> fromstring record_xml = Inr root
      \<and> find_elem root path_TargetUserName = None"
  then show "Account ev = Some ''N/A''"
    using parse_event_Inr_fields(1) [of fromstring int_str record_xml ev root] by simp
next
  assume "parse_event fromstring int_str record_xml = Inr ev \<and> fromstring record_xml = Inr root
      \<and> find_elem root path_Message = None"
  then show "Message ev = Some ''''"
    using parse_event_Inr_fields(2) [of fromstring int_str record_xml ev root] by simp
next
  assume "fromstring record_xml = Inr root
      \<and> find_elem root path_EventID = Some id_elem \<and> etext id_elem = Some t \<and> int_str t = Some n
      \<and> find_elem root path_TimeCreated = Some time_elem
      \<and> map_of (attrib time_elem) ''SystemTime'' = Some ts"
  then show "\<exists>ev'. parse_event fromstring int_str record_xml = Inr ev'"
    using parse_event_Inr [of fromstring record_xml root id_elem t int_str n time_elem ts] by simp
qed

theorem parse_event_optional_defaults_witness:
  "find_elem ex_minimal path_TargetUserName = None
   \<and> find_elem ex_minimal path_Message = None
   \<and> parse_event (\<lambda>_. Inr ex_minimal) ex_int ''<Event/>'' =
       Inr \<lparr>EventID = 4625, Time = ''2024-05-01 10:00:00'',
            Account = Some ''N/A'', Message = Some ''''\<rparr>"
  using parse_event_optional_defaults
    [of "\<lambda>_. Inr ex_minimal" ex_int "''<Event/>''"
        "\<lparr>EventID = 4625, Time = ''2024-05-01 10:00:00'', Account = Some ''N/A'', Message = Some ''''\<rparr>"
        ex_minimal "Element (ns ''EventID'') [] (Some ''4625'') []" "''4625''" 4625
        "Element (ns ''TimeCreated'') [(''SystemTime'', ''2024-05-01 10:00:00'')] None []"
        "''2024-05-01 10:00:00''"]
  by (simp add: parse_event_def py_int_def example_records path_defs)

text \<open>
  C10: when the \<open>TargetUserName\<close> element is found but holds no text, the account
  of the event is \<open>None\<close>, not \<open>"N/A"\<close>; when the \<open>Message\<close> element is
  found but holds no text, the message is \<open>None\<close>, not the empty string. The
  defaults stand in only for an element that is not found.
\<close>

theorem parse_event_empty_element_gives_None:
  "(parse_event fromstring int_str record_xml = Inr ev \<and> fromstring record_xml = Inr root
      \<and> find_elem root path_TargetUserName = Some el \<and> etext el = None \<longrightarrow> Account ev = None)
   \<and> (parse_event fromstring int_str record_xml = Inr ev \<and> fromstring record_xml = Inr root
      \<and> find_elem root path_Message = Some el \<and> etext el = None \<longrightarrow> Message ev = None)"
proof (intro conjI impI)
  assume "parse_event fromstring int_str record_xml = Inr ev \<and> fromstring record_xml = Inr root
      \<and> find_elem root path_TargetUserName = Some el \<and> etext el = None"
  then show "Account ev = None"
    using parse_event_Inr_fields(1) [of fromstring int_str record_xml ev root] by simp
next
  assume "parse_event fromstring int_str record_xml = Inr ev \<and> fromstring record_xml = Inr root
      \<and> find_elem root path_Message = Some el \<and> etext el = None"
  then show "Message ev = None"
    using parse_event_Inr_fields(2) [of fromstring int_str record_xml ev root] by simp
qed

theorem parse_event_empty_element_gives_None_witness:
  "find_elem ex_empty_fields path_TargetUserName =
     Some (Element (ns ''Data'') [(''Name'', ''TargetUserName'')] None [])
   \<and> find_elem ex_empty_fields path_Message = Some (Element (ns ''Message'') [] None [])
   \<and> parse_event (\<lambda>_. Inr ex_empty_fields) ex_int ''<Event/>'' =
       Inr \<lparr>EventID = 4625, Time = ''2024-05-01 10:00:00'', Account = None, Message = None\<rparr>"
  using parse_event_empty_element_gives_None
    [of "\<lambda>_. Inr ex_empty_fields" ex_int "''<Event/>''"
        "\<lparr>EventID = 4625, Time = ''2024-05-01 10:00:00'', Account = None, Message = None\<rparr>"
        ex_empty_fields "Element (ns ''Data'') [(''Name'', ''TargetUserName'')] None []"]
    parse_event_empty_element_gives_None
    [of "\<lambda>_. Inr ex_empty_fields" ex_int "''<Event/>''"
        "\<lparr>EventID = 4625, Time = ''2024-05-01 10:00:00'', Account = None, Message = None\<rparr>"
        ex_empty_fields "Element (ns ''Message'') [] None []"]
  by (simp add: parse_event_def py_int_def example_records path_defs)

text \<open>
  C4, as the code has it: \<open>parse_event\<close> returns no event and leaves with an
  uncaught exception, which is the exception of \<open>fromstring\<close> (the \<open>ParseError\<close>
  of \<open>xml.etree.ElementTree\<close>) when the text is not well-formed XML,
  \<open>AttributeError\<close> when no \<open>EventID\<close> under \<open>System\<close> is found,
  \<open>TypeError\<close> when that element holds no text, and \<open>ValueError\<close> when its
  text is not a number.
\<close>

theorem parse_event_fails:
  "(fromstring record_xml = Inl e \<longrightarrow> parse_event fromstring int_str record_xml = Inl e)
   \<and> (fromstring record_xml = Inr root \<and> find_elem root path_EventID = None
        \<longrightarrow> parse_event fromstring int_str record_xml = Inl AttributeError)
   \<and> (fromstring record_xml = Inr root \<and> find_elem root path_EventID = Some id_elem
        \<and> etext id_elem = None
        \<longrightarrow> parse_event fromstring int_str record_xml = Inl TypeError)
   \<and> (fromstring record_xml = Inr root \<and> find_elem root path_EventID = Some id_elem
        \<and> etext id_elem = Some t \<and> int_str t = None
        \<longrightarrow> parse_event fromstring int_str record_xml = Inl ValueError)"
  by (simp add: parse_event_def py_int_def)

theorem parse_event_fails_witness:
  "parse_event (\<lambda>_. Inl ET_ParseError) ex_int ''<Event'' = Inl ET_ParseError
   \<and> find_elem ex_no_id path_EventID = None
   \<and> parse_event (\<lambda>_. Inr ex_no_id) ex_int ''<Event/>'' = Inl AttributeError
   \<and> parse_event (\<lambda>_. Inr ex_empty_id) ex_int ''<Event/>'' = Inl TypeError
   \<and> ex_int ''abc'' = None
   \<and> parse_event (\<lambda>_. Inr ex_bad_id) ex_int ''<Event/>'' = Inl ValueError"
  using parse_event_fails [of "\<lambda>_. Inl ET_ParseError" "''<Event''" ET_ParseError ex_int]
    parse_event_fails [of "\<lambda>_. Inr ex_no_id" "''<Event/>''" _ ex_int ex_no_id]
    parse_event_fails [of "\<lambda>_. Inr ex_empty_id" "''<Event/>''" _ ex_int ex_empty_id
       "Element (ns ''EventID'') [] None []"]
    parse_event_fails [of "\<lambda>_. Inr ex_bad_id" "''<Event/>''" _ ex_int ex_bad_id
       "Element (ns ''EventID'') [] (Some ''abc'') []" "''abc''"]
  by (simp add: example_records path_defs)

text \<open>
  C4, as it is stated, asks for \<open>ParseError\<close> in every case. A record without an
  \<open>EventID\<close> element leaves with \<open>AttributeError\<close>, one whose \<open>EventID\<close>
  holds no text with \<open>TypeError\<close>, one whose \<open>EventID\<close> reads \<open>abc\<close> with
  \<open>ValueError\<close>: none of them is the \<open>ParseError\<close> of the XML parser, and the
  source defines no other.
\<close>

theorem parse_event_error_counterexample:
  "find_elem ex_no_id path_EventID = None
   \<and> parse_event (ex_fromstring ex_no_id) ex_int ''<Event/>'' = Inl AttributeError
   \<and> parse_event (ex_fromstring ex_no_id) ex_int ''<Event/>'' \<noteq> Inl ET_ParseError
   \<and> parse_event (ex_fromstring ex_empty_id) ex_int ''<Event/>'' = Inl TypeError
   \<and> parse_event (ex_fromstring ex_empty_id) ex_int ''<Event/>'' \<noteq> Inl ET_ParseError
   \<and> parse_event (ex_fromstring ex_bad_id) ex_int ''<Event/>'' = Inl ValueError
   \<and> parse_event (ex_fromstring ex_bad_id) ex_int ''<Event/>'' \<noteq> Inl ET_ParseError"
  by (simp add: parse_event_def py_int_def example_records path_defs)

section \<open>Saving the alerts\<close>

lemma csv_cell_simps: "csv_cell None = ''''" "csv_cell (Some t) = t"
  by (simp_all add: csv_cell_def)

lemma to_csv_DataFrame:
  "al \<noteq> [] \<Longrightarrow>
   to_csv (DataFrame al) =
     [''Time'', ''Account'', ''Type'', ''Details''] #
     map (\<lambda>a. [alert_Time a, csv_cell (alert_Account a), alert_Type a, csv_cell (alert_Details a)]) al"
  by (simp add: to_csv_def DataFrame_def alert_keys_def alert_values_def csv_cell_simps comp_def)

text \<open>
  C9, as the code has it: when \<open>alerts\<close> is not empty, the file written has the
  header row \<open>Time,Account,Type,Details\<close>, the keys of the alert dictionaries,
  followed by one row for each alert in the order of the list; when \<open>alerts\<close> is
  empty, no file is written and the files are as before.
\<close>

theorem save_alerts_csv_file:
  "(alerts s \<noteq> [] \<longrightarrow>
      save_alerts_csv filename s files =
        files(filename \<mapsto>
          [''Time'', ''Account'', ''Type'', ''Details''] #
          map (\<lambda>a. [alert_Time a, csv_cell (alert_Account a), alert_Type a, csv_cell (alert_Details a)])
              (alerts s)))
   \<and> (alerts s = [] \<longrightarrow> save_alerts_csv filename s files = files)"
  by (simp add: save_alerts_csv_def to_csv_DataFrame)

theorem save_alerts_csv_file_witness:
  "alerts \<lparr>failed_logins = Map.empty, alerts = [ex_alert]\<rparr> \<noteq> []
   \<and> save_alerts_csv ''alerts_report.csv'' \<lparr>failed_logins = Map.empty, alerts = [ex_alert]\<rparr> Map.empty
      ''alerts_report.csv'' =
     Some [[''Time'', ''Account'', ''Type'', ''Details''],
           [''2024-05-01 10:07:00'', ''N/A'', ''Service Stopped'', '''']]
   \<and> alerts initial_state = []
   \<and> save_alerts_csv ''alerts_report.csv'' initial_state Map.empty = Map.empty"
  using save_alerts_csv_file [of "\<lparr>failed_logins = Map.empty, alerts = [ex_alert]\<rparr>"
          "''alerts_report.csv''" Map.empty]
        save_alerts_csv_file [of initial_state "''alerts_report.csv''" Map.empty]
  by (simp add: csv_cell_def ex_alert_def initial_state_def)

text \<open>
  C9, as it is stated, asks for the header row \<open>Timestamp,Account,Type,Details\<close>.
  For a list of one alert the file written starts with \<open>Time,Account,Type,Details\<close>.
\<close>

theorem save_alerts_csv_header_counterexample:
  "save_alerts_csv ''alerts_report.csv'' \<lparr>failed_logins = Map.empty, alerts = [ex_alert]\<rparr> Map.empty
      ''alerts_report.csv'' =
     Some [[''Time'', ''Account'', ''Type'', ''Details''],
           [''2024-05-01 10:07:00'', ''N/A'', ''Service Stopped'', '''']]
   \<and> [''Time'', ''Account'', ''Type'', ''Details''] \<noteq> [''Timestamp'', ''Account'', ''Type'', ''Details'']"
  by (simp add: save_alerts_csv_def to_csv_def DataFrame_def alert_keys_def alert_values_def
        csv_cell_def ex_alert_def)

end
